theory Spec2Isabelle
  imports Main "HOL-Library.AList"
begin

section \<open>Python values, dictionaries and exceptions\<close>

text \<open>
  The checkpoint code of \<^verbatim>\<open>fairseq/utils.py\<close> moves Python objects between
  dictionaries. A value is \<^verbatim>\<open>None\<close>, an integer, a string, a list, a dictionary
  with string keys, or an opaque object that cannot be subscripted (a float, an
  argparse namespace), identified by a tag. A dictionary is an association list
  in insertion order: assignment to a key overwrites the entry in place or appends
  a new one, as a Python dictionary does.
\<close>

datatype pyval =
    PNone
  | PInt int
  | PStr string
  | PList "pyval list"
  | PDict "(string \<times> pyval) list"
  | PObj nat

type_synonym pydict = "(string \<times> pyval) list"

datatype error =
    KeyError pyval
  | IndexError
  | TypeError
  | ValueError
  | AssertionError
  | IOError string
  | FileNotFoundError string
  | CollaboratorError nat

text \<open>
  A call either returns a value or raises: \<open>Inl\<close> is the exception. A statement
  that follows another runs only if the first one returned.
\<close>

fun bind_result :: "error + 'a \<Rightarrow> ('a \<Rightarrow> error + 'b) \<Rightarrow> error + 'b" where
  "bind_result (Inl e) f = Inl e"
| "bind_result (Inr x) f = f x"

text \<open>\<^verbatim>\<open>k in d\<close>, \<^verbatim>\<open>d[k]\<close>, \<^verbatim>\<open>d[k] = v\<close> and \<^verbatim>\<open>del d[k]\<close> on a dictionary.\<close>

definition contains :: "pydict \<Rightarrow> string \<Rightarrow> bool" where
  "contains d k = (map_of d k \<noteq> None)"

definition getitem :: "pydict \<Rightarrow> string \<Rightarrow> error + pyval" where
  "getitem d k = (case map_of d k of None \<Rightarrow> Inl (KeyError (PStr k)) | Some v \<Rightarrow> Inr v)"

definition setitem :: "pydict \<Rightarrow> string \<Rightarrow> pyval \<Rightarrow> pydict" where
  "setitem d k v = AList.update k v d"

definition delitem :: "pydict \<Rightarrow> string \<Rightarrow> error + pydict" where
  "delitem d k = (if contains d k then Inr (AList.delete k d) else Inl (KeyError (PStr k)))"

text \<open>\<^verbatim>\<open>x[-1]\<close> and \<^verbatim>\<open>x['k']\<close> on an arbitrary value.\<close>

fun subscript_last :: "pyval \<Rightarrow> error + pyval" where
  "subscript_last (PList xs) = (if xs = [] then Inl IndexError else Inr (last xs))"
| "subscript_last (PStr s) = (if s = [] then Inl IndexError else Inr (PStr [last s]))"
| "subscript_last (PDict d) = Inl (KeyError (PInt (- 1)))"
| "subscript_last PNone = Inl TypeError"
| "subscript_last (PInt i) = Inl TypeError"
| "subscript_last (PObj t) = Inl TypeError"

fun subscript_key :: "pyval \<Rightarrow> string \<Rightarrow> error + pyval" where
  "subscript_key (PDict d) k = getitem d k"
| "subscript_key (PList xs) k = Inl TypeError"
| "subscript_key (PStr s) k = Inl TypeError"
| "subscript_key PNone k = Inl TypeError"
| "subscript_key (PInt i) k = Inl TypeError"
| "subscript_key (PObj t) k = Inl TypeError"

section \<open>Upgrading old checkpoints\<close>

text \<open>
  Modelled from the spec: \<^verbatim>\<open>criterions.CrossEntropyCriterion.__name__\<close>, the identifier
  of the plain cross-entropy criterion. The criterions package is not part of the
  source at hand; the name of a class is the identifier it is declared under.
\<close>

definition CrossEntropyCriterion_name :: string where
  "CrossEntropyCriterion_name = ''CrossEntropyCriterion''"

text \<open>
  The first block of \<^verbatim>\<open>_upgrade_state_dict\<close>: add \<^verbatim>\<open>optimizer_history\<close>. The dictionary
  display is evaluated before the assignment, so a missing legacy field raises
  \<^verbatim>\<open>KeyError\<close> before anything is changed.
\<close>

definition add_optimizer_history :: "pydict \<Rightarrow> error + pydict" where
  "add_optimizer_history state =
     (if \<not> contains state ''optimizer_history'' then
        bind_result (getitem state ''optimizer'') (\<lambda>opt.
        bind_result (getitem state ''best_loss'') (\<lambda>bl.
        bind_result (delitem (setitem state ''optimizer_history''
            (PList [PDict [(''criterion_name'', PStr CrossEntropyCriterion_name),
                           (''optimizer'', opt),
                           (''best_loss'', bl)]])) ''optimizer'') (\<lambda>s1.
        delitem s1 ''best_loss'')))
      else Inr state)"

text \<open>The second block: move \<^verbatim>\<open>extra_state\<close> into a sub-dictionary.\<close>

definition move_extra_state :: "pydict \<Rightarrow> error + pydict" where
  "move_extra_state state =
     (if contains state ''epoch'' \<and> \<not> contains state ''extra_state'' then
        bind_result (getitem state ''epoch'') (\<lambda>ep.
        bind_result (getitem state ''batch_offset'') (\<lambda>bo.
        bind_result (getitem state ''val_loss'') (\<lambda>vl.
        bind_result (delitem (setitem state ''extra_state''
            (PDict [(''epoch'', ep), (''batch_offset'', bo), (''val_loss'', vl)]))
            ''epoch'') (\<lambda>s1.
        bind_result (delitem s1 ''batch_offset'') (\<lambda>s2.
        delitem s2 ''val_loss'')))))
      else Inr state)"

text \<open>
  \<^verbatim>\<open>_upgrade_state_dict\<close> runs the two blocks in this order and returns the dictionary.
  The source updates the dictionary in place; when a block raises, the exception is
  the outcome and the dictionary is dropped, as it is by \<^verbatim>\<open>load_state\<close>, which holds the
  only reference to it.
\<close>

definition upgrade_state_dict :: "pydict \<Rightarrow> error + pydict" where
  "upgrade_state_dict state = bind_result (add_optimizer_history state) move_extra_state"

text \<open>
  Applying the procedure to the result of a first application, as
  \<^verbatim>\<open>_upgrade_state_dict(_upgrade_state_dict(state))\<close> does: an exception of the first
  call propagates.
\<close>

definition upgrade_twice :: "pydict \<Rightarrow> error + pydict" where
  "upgrade_twice state = bind_result (upgrade_state_dict state) upgrade_state_dict"

section \<open>The objects a training run passes in\<close>

text \<open>
  The model, the optimizer and their constructors are collaborators from outside
  this file. They are opaque (\<open>'m\<close>, \<open>'o\<close>, dictionaries \<open>'d\<close>); the methods the code
  calls on them are the fields of an environment. \<^verbatim>\<open>load_state_dict\<close> works in place
  and may raise, so it returns the object as it left it together with its outcome.
  \<open>models\<close> is the registry \<^verbatim>\<open>fairseq.models\<close> (attribute name to model class) and
  \<open>args_model\<close> reads \<^verbatim>\<open>args.model\<close>.
\<close>

record ('m, 'o, 'd) env =
  models :: "string \<rightharpoonup> (pyval \<Rightarrow> 'd \<Rightarrow> 'd \<Rightarrow> error + 'm)"
  args_model :: "pyval \<Rightarrow> error + string"
  model_state_dict :: "'m \<Rightarrow> pyval"
  model_load_state_dict :: "'m \<Rightarrow> pyval \<Rightarrow> (error + unit) \<times> 'm"
  optimizer_state_dict :: "'o \<Rightarrow> pyval"
  optimizer_load_state_dict :: "'o \<Rightarrow> pyval \<Rightarrow> (error + unit) \<times> 'o"

record criterion =
  class_name :: string

record lr_scheduler =
  best :: pyval

text \<open>A record of the \<^verbatim>\<open>logging\<close> module: \<^verbatim>\<open>logging.error(traceback.format_exc())\<close>
  records the exception being handled.\<close>

datatype log_record = LogError error

text \<open>
  What a call can change: the three mutable objects handed to \<^verbatim>\<open>load_state\<close> and the
  records logged so far.
\<close>

record ('m, 'o) objects =
  model :: 'm
  optimizer :: 'o
  scheduler :: lr_scheduler
  logged :: "log_record list"

text \<open>A computation on a state \<open>'s\<close> that returns or raises, leaving the state as it
  is at that point.\<close>

type_synonym ('a, 's) run = "'s \<Rightarrow> (error + 'a) \<times> 's"

definition returns :: "'a \<Rightarrow> ('a, 's) run" where
  "returns x = (\<lambda>s. (Inr x, s))"

definition lift_result :: "error + 'a \<Rightarrow> ('a, 's) run" where
  "lift_result r = (\<lambda>s. (r, s))"

definition bind_run :: "('a, 's) run \<Rightarrow> ('a \<Rightarrow> ('b, 's) run) \<Rightarrow> ('b, 's) run" where
  "bind_run m f = (\<lambda>s. case m s of (Inl e, s') \<Rightarrow> (Inl e, s') | (Inr x, s') \<Rightarrow> f x s')"

definition model_load :: "('m, 'o, 'd) env \<Rightarrow> pyval \<Rightarrow> (unit, ('m, 'o) objects) run" where
  "model_load env weights =
     (\<lambda>w. case model_load_state_dict env (model w) weights of (r, m') \<Rightarrow> (r, w\<lparr>model := m'\<rparr>))"

definition optimizer_load :: "('m, 'o, 'd) env \<Rightarrow> pyval \<Rightarrow> (unit, ('m, 'o) objects) run" where
  "optimizer_load env st =
     (\<lambda>w. case optimizer_load_state_dict env (optimizer w) st of
             (r, o') \<Rightarrow> (r, w\<lparr>optimizer := o'\<rparr>))"

definition set_best :: "pyval \<Rightarrow> (unit, ('m, 'o) objects) run" where
  "set_best b = (\<lambda>w. (Inr (), w\<lparr>scheduler := (scheduler w)\<lparr>best := b\<rparr>\<rparr>))"

section \<open>Saving a checkpoint\<close>

text \<open>
  \<^verbatim>\<open>torch.save\<close> is the storage write: from a storage state \<open>'st\<close> it returns or raises
  an \<^verbatim>\<open>Exception\<close>, and leaves a storage state. Any behaviour of the storage is
  a function of this type (the state may count attempts, hold partial files, and so
  on). \<^verbatim>\<open>torch_persistent_save\<close> loops over \<^verbatim>\<open>range(3)\<close>, returns the value of the first
  write that returns, logs in the handler when \<^verbatim>\<open>i == 2\<close>, and returns \<^verbatim>\<open>None\<close> when the
  loop ends.
\<close>

type_synonym 'st torch_save = "pydict \<Rightarrow> string \<Rightarrow> 'st \<Rightarrow> (error + pyval) \<times> 'st"

fun persistent_loop ::
  "'st torch_save \<Rightarrow> pydict \<Rightarrow> string \<Rightarrow> nat list \<Rightarrow> 'st \<Rightarrow> log_record list
     \<Rightarrow> (error + pyval) \<times> 'st \<times> log_record list" where
  "persistent_loop save obj f [] st lg = (Inr PNone, st, lg)"
| "persistent_loop save obj f (i # rest) st lg =
     (case save obj f st of
        (Inr v, st') \<Rightarrow> (Inr v, st', lg)
      | (Inl e, st') \<Rightarrow>
          persistent_loop save obj f rest st' (if i = 2 then lg @ [LogError e] else lg))"

definition torch_persistent_save ::
  "'st torch_save \<Rightarrow> pydict \<Rightarrow> string \<Rightarrow> 'st \<Rightarrow> log_record list
     \<Rightarrow> (error + pyval) \<times> 'st \<times> log_record list" where
  "torch_persistent_save save obj f st lg = persistent_loop save obj f [0..<3] st lg"

text \<open>The entry \<^verbatim>\<open>save_state\<close> appends, and the dictionary \<^verbatim>\<open>state_dict\<close> it builds.
  \<^verbatim>\<open>optim_history + [...]\<close> makes a new list.\<close>

definition optimizer_entry ::
  "('m, 'o, 'd) env \<Rightarrow> criterion \<Rightarrow> 'o \<Rightarrow> lr_scheduler \<Rightarrow> pyval" where
  "optimizer_entry env crit opt sched =
     PDict [(''criterion_name'', PStr (class_name crit)),
            (''optimizer'', optimizer_state_dict env opt),
            (''best_loss'', best sched)]"

definition state_dict ::
  "('m, 'o, 'd) env \<Rightarrow> pyval \<Rightarrow> 'm \<Rightarrow> criterion \<Rightarrow> 'o \<Rightarrow> lr_scheduler
     \<Rightarrow> pyval list option \<Rightarrow> pyval option \<Rightarrow> pydict" where
  "state_dict env args mdl crit opt sched optim_history extra_state =
     (let optim_history = (case optim_history of None \<Rightarrow> [] | Some h \<Rightarrow> h);
          extra_state = (case extra_state of None \<Rightarrow> PDict [] | Some x \<Rightarrow> x)
      in [(''args'', args),
          (''model'', model_state_dict env mdl),
          (''optimizer_history'', PList (optim_history @ [optimizer_entry env crit opt sched])),
          (''extra_state'', extra_state)])"

definition save_state ::
  "('m, 'o, 'd) env \<Rightarrow> 'st torch_save \<Rightarrow> string \<Rightarrow> pyval \<Rightarrow> 'm \<Rightarrow> criterion \<Rightarrow> 'o
     \<Rightarrow> lr_scheduler \<Rightarrow> pyval list option \<Rightarrow> pyval option \<Rightarrow> 'st \<Rightarrow> log_record list
     \<Rightarrow> (error + pyval) \<times> 'st \<times> log_record list" where
  "save_state env save filename args mdl crit opt sched optim_history extra_state st lg =
     (case torch_persistent_save save
             (state_dict env args mdl crit opt sched optim_history extra_state) filename st lg of
        (Inl e, st', lg') \<Rightarrow> (Inl e, st', lg')
      | (Inr v, st', lg') \<Rightarrow> (Inr PNone, st', lg'))"

text \<open>
  Successive saves of one run. The caller of \<^verbatim>\<open>save_state\<close> sees nothing but the storage
  writes the call asks for, so the storage is made to record them: every request to
  \<^verbatim>\<open>torch.save\<close> is noted with its path and the object handed over, whatever the
  underlying storage then does with it.
\<close>

fun recorded :: "'st torch_save \<Rightarrow> ('st \<times> (string \<times> pydict) list) torch_save" where
  "recorded save obj f (st, requests) =
     (case save obj f st of (r, st') \<Rightarrow> (r, (st', requests @ [(f, obj)])))"

record ('m, 'o) save_call =
  call_filename :: string
  call_args :: pyval
  call_model :: 'm
  call_criterion :: criterion
  call_optimizer :: 'o
  call_scheduler :: lr_scheduler
  call_extra_state :: "pyval option"

text \<open>One call of \<^verbatim>\<open>save_state\<close> with the arguments \<open>c\<close> and the history \<open>hist\<close>, on a
  recording storage that has noted nothing yet.\<close>

definition run_call ::
  "('m, 'o, 'd) env \<Rightarrow> 'st torch_save \<Rightarrow> ('m, 'o) save_call \<Rightarrow> pyval list option \<Rightarrow> 'st
     \<Rightarrow> log_record list \<Rightarrow> (error + pyval) \<times> ('st \<times> (string \<times> pydict) list) \<times> log_record list" where
  "run_call env save c hist st lg =
     save_state env (recorded save) (call_filename c) (call_args c) (call_model c)
       (call_criterion c) (call_optimizer c) (call_scheduler c) hist (call_extra_state c)
       (st, []) lg"

text \<open>The optimizer history of a snapshot, and the history a call produced: that of
  the snapshot it last handed to the storage write (none if it asked for no write).\<close>

definition history_of :: "pydict \<Rightarrow> pyval list option" where
  "history_of snapshot =
     (case map_of snapshot ''optimizer_history'' of Some (PList h) \<Rightarrow> Some h | _ \<Rightarrow> None)"

definition written_history :: "(string \<times> pydict) list \<Rightarrow> pyval list option" where
  "written_history requests =
     (if requests = [] then None else history_of (snd (last requests)))"

text \<open>
  The calls are made in order; every call is passed the history the call before it
  produced, the first one the default \<^verbatim>\<open>None\<close>; a call that raises ends the sequence.
  The result lists, per call, the write requests the call made.
\<close>

fun successive_saves ::
  "('m, 'o, 'd) env \<Rightarrow> 'st torch_save \<Rightarrow> ('m, 'o) save_call list \<Rightarrow> pyval list option
     \<Rightarrow> 'st \<Rightarrow> log_record list \<Rightarrow> (string \<times> pydict) list list \<times> 'st \<times> log_record list" where
  "successive_saves env save [] hist st lg = ([], st, lg)"
| "successive_saves env save (c # cs) hist st lg =
     (case run_call env save c hist st lg of
        (Inl e, (st1, requests), lg1) \<Rightarrow> ([requests], st1, lg1)
      | (Inr v, (st1, requests), lg1) \<Rightarrow>
          (case successive_saves env save cs (written_history requests) st1 lg1 of
             (rest, st2, lg2) \<Rightarrow> (requests # rest, st2, lg2)))"


section \<open>Loading a checkpoint\<close>

text \<open>
  The checkpoint files: a path either does not exist or holds the dictionary that
  \<^verbatim>\<open>torch.load\<close> returns for it. \<^verbatim>\<open>map_location\<close> moves tensor storage to a device and
  does not change the dictionary.
\<close>

type_synonym checkpoints = "string \<rightharpoonup> pydict"

datatype map_location = Default_location | Cuda int | Cpu

definition path_exists :: "checkpoints \<Rightarrow> string \<Rightarrow> bool" where
  "path_exists fs filename = (fs filename \<noteq> None)"

definition torch_load :: "checkpoints \<Rightarrow> string \<Rightarrow> map_location \<Rightarrow> error + pydict" where
  "torch_load fs filename loc =
     (case fs filename of None \<Rightarrow> Inl (FileNotFoundError filename) | Some state \<Rightarrow> Inr state)"

definition load_state ::
  "('m, 'o, 'd) env \<Rightarrow> checkpoints \<Rightarrow> string \<Rightarrow> criterion \<Rightarrow> int option
     \<Rightarrow> (pyval \<times> pyval, ('m, 'o) objects) run" where
  "load_state env fs filename crit cuda_device =
     (if \<not> path_exists fs filename then returns (PNone, PList [])
      else
        bind_run (lift_result (torch_load fs filename
            (case cuda_device of None \<Rightarrow> Default_location | Some n \<Rightarrow> Cuda n))) (\<lambda>state0.
        bind_run (lift_result (upgrade_state_dict state0)) (\<lambda>state.
        bind_run (lift_result (getitem state ''model'')) (\<lambda>weights.
        bind_run (model_load env weights) (\<lambda>_.
        bind_run (lift_result (getitem state ''optimizer_history'')) (\<lambda>optim_history.
        bind_run (lift_result (subscript_last optim_history)) (\<lambda>last_optim.
        bind_run (lift_result (subscript_key last_optim ''criterion_name'')) (\<lambda>name.
        bind_run
          (if name = PStr (class_name crit) then
             bind_run (lift_result (subscript_key last_optim ''optimizer'')) (\<lambda>opt_state.
             bind_run (optimizer_load env opt_state) (\<lambda>_.
             bind_run (lift_result (subscript_key last_optim ''best_loss'')) (\<lambda>b.
             set_best b)))
           else returns ()) (\<lambda>_.
        bind_run (lift_result (getitem state ''extra_state'')) (\<lambda>extra_state.
        returns (extra_state, optim_history)))))))))))"

section \<open>Loading an ensemble\<close>

text \<open>\<^verbatim>\<open>build_model\<close>: the assertion that the registry has the model type, then the
  class's own constructor.\<close>

definition build_model :: "('m, 'o, 'd) env \<Rightarrow> pyval \<Rightarrow> 'd \<Rightarrow> 'd \<Rightarrow> error + 'm" where
  "build_model env args src_dict dst_dict =
     bind_result (args_model env args) (\<lambda>name.
       case models env name of
         None \<Rightarrow> Inl AssertionError
       | Some cls \<Rightarrow> cls args src_dict dst_dict)"

text \<open>The first loop of \<^verbatim>\<open>load_ensemble_for_inference\<close>, with its list \<^verbatim>\<open>states\<close>.\<close>

fun load_states :: "checkpoints \<Rightarrow> string list \<Rightarrow> pydict list \<Rightarrow> error + pydict list" where
  "load_states fs [] states = Inr states"
| "load_states fs (filename # rest) states =
     (if \<not> path_exists fs filename then Inl (IOError (''Model file not found: '' @ filename))
      else bind_result (torch_load fs filename Cpu) (\<lambda>state.
             load_states fs rest (states @ [state])))"

text \<open>The second loop, with its list \<^verbatim>\<open>ensemble\<close>.\<close>

fun build_ensemble ::
  "('m, 'o, 'd) env \<Rightarrow> pyval \<Rightarrow> 'd \<Rightarrow> 'd \<Rightarrow> pydict list \<Rightarrow> 'm list \<Rightarrow> error + 'm list" where
  "build_ensemble env args src_dict dst_dict [] ensemble = Inr ensemble"
| "build_ensemble env args src_dict dst_dict (state # rest) ensemble =
     bind_result (build_model env args src_dict dst_dict) (\<lambda>mdl.
     bind_result (getitem state ''model'') (\<lambda>weights.
       case model_load_state_dict env mdl weights of
         (Inl e, mdl') \<Rightarrow> Inl e
       | (Inr u, mdl') \<Rightarrow> build_ensemble env args src_dict dst_dict rest (ensemble @ [mdl'])))"

definition load_ensemble_for_inference ::
  "('m, 'o, 'd) env \<Rightarrow> checkpoints \<Rightarrow> string list \<Rightarrow> 'd \<Rightarrow> 'd \<Rightarrow> error + 'm list" where
  "load_ensemble_for_inference env fs filenames src_dict dst_dict =
     bind_result (load_states fs filenames []) (\<lambda>states.
     bind_result (case states of [] \<Rightarrow> Inl IndexError | s0 # _ \<Rightarrow> getitem s0 ''args'') (\<lambda>args.
     build_ensemble env args src_dict dst_dict states []))"

section \<open>Parsing an embedding file\<close>

text \<open>
  A text file is the string the text stream delivers (decoded, newlines
  translated). Iterating over the file gives its lines, each with the newline that
  ends it, the last one possibly without.
\<close>

type_synonym text_files = "string \<rightharpoonup> string"

fun lines_from :: "string \<Rightarrow> string \<Rightarrow> string list" where
  "lines_from [] cur = (if cur = [] then [] else [cur])"
| "lines_from (c # cs) cur =
     (if c = CHR ''\<newline>'' then (cur @ [c]) # lines_from cs []
      else lines_from cs (cur @ [c]))"

definition readlines :: "string \<Rightarrow> string list" where
  "readlines txt = lines_from txt []"

text \<open>\<^verbatim>\<open>line.split(' ', 1)\<close>: cut at the first space character, if there is one.\<close>

definition split_space_1 :: "string \<Rightarrow> string list" where
  "split_space_1 line =
     (if CHR '' '' \<in> set line
      then [takeWhile (\<lambda>c. c \<noteq> CHR '' '') line, tl (dropWhile (\<lambda>c. c \<noteq> CHR '' '') line)]
      else [line])"

text \<open>
  The loop over \<^verbatim>\<open>enumerate(f)\<close>, with the variables \<^verbatim>\<open>embedd_dict\<close> and \<^verbatim>\<open>word\<close> it
  leaves behind. Unpacking a split of one part raises \<^verbatim>\<open>ValueError\<close>.
  \<^verbatim>\<open>np.fromstring(vec, sep=' ')\<close> is numpy's; it is a parameter, and the array it
  returns is the list of its elements.
\<close>

fun embedding_loop ::
  "(string \<Rightarrow> 'f list) \<Rightarrow> (nat \<times> string) list \<Rightarrow> (string \<times> 'f list) list \<Rightarrow> string option
     \<Rightarrow> error + (string \<times> 'f list) list \<times> string option" where
  "embedding_loop fromstring [] embedd_dict word = Inr (embedd_dict, word)"
| "embedding_loop fromstring ((i, line) # rest) embedd_dict word =
     (if i = 0 then embedding_loop fromstring rest embedd_dict word
      else case split_space_1 line of
             [w, vec] \<Rightarrow>
               embedding_loop fromstring rest (AList.update w (fromstring vec) embedd_dict) (Some w)
           | _ \<Rightarrow> Inl ValueError)"

text \<open>
  The loop over \<^verbatim>\<open>embedd_dict.items()\<close>: one line of output, the two lengths, for
  every entry whose length is not \<^verbatim>\<open>embedd_dim\<close>.
\<close>

definition print_mismatches :: "nat \<Rightarrow> (string \<times> 'f list) list \<Rightarrow> (nat \<times> nat) list" where
  "print_mismatches embedd_dim embedd_dict =
     map (\<lambda>(k, v). (length v, embedd_dim))
       (filter (\<lambda>(k, v). length v \<noteq> embedd_dim) embedd_dict)"

text \<open>
  \<^verbatim>\<open>parse_embedding\<close> returns the table; what it prints is returned with it, since
  nothing is printed on a path that raises. \<^verbatim>\<open>embedd_dict[word]\<close> is looked up with the
  value \<^verbatim>\<open>word\<close> has after the loop, \<^verbatim>\<open>None\<close> if no line was parsed.
\<close>

definition parse_embedding ::
  "(string \<Rightarrow> 'f list) \<Rightarrow> text_files \<Rightarrow> string
     \<Rightarrow> error + (string \<times> 'f list) list \<times> (nat \<times> nat) list" where
  "parse_embedding fromstring files embed_path =
     (case files embed_path of
        None \<Rightarrow> Inl (FileNotFoundError embed_path)
      | Some txt \<Rightarrow>
          bind_result (embedding_loop fromstring (enumerate 0 (readlines txt)) [] None)
            (\<lambda>(embedd_dict, word).
               bind_result
                 (case word of
                    None \<Rightarrow> Inl (KeyError PNone)
                  | Some w \<Rightarrow>
                      (case map_of embedd_dict w of
                         None \<Rightarrow> Inl (KeyError (PStr w))
                       | Some v \<Rightarrow> Inr (length v)))
                 (\<lambda>embedd_dim. Inr (embedd_dict, print_mismatches embedd_dim embedd_dict))))"

text \<open>
  An instance of the numeric parser for payloads that hold number literals
  separated by white space: the array has one element per literal, and the
  literal stands for the float it denotes.
\<close>

definition is_space :: "char \<Rightarrow> bool" where
  "is_space c = (c \<in> set [CHR '' '', CHR ''\<newline>'', CHR 0x09, CHR 0x0B, CHR 0x0C, CHR 0x0D])"

fun tokens_from :: "string \<Rightarrow> string \<Rightarrow> string list" where
  "tokens_from [] cur = (if cur = [] then [] else [cur])"
| "tokens_from (c # cs) cur =
     (if is_space c then (if cur = [] then tokens_from cs [] else cur # tokens_from cs [])
      else tokens_from cs (cur @ [c]))"

definition literal_fromstring :: "string \<Rightarrow> string list" where
  "literal_fromstring vec = tokens_from vec []"

section \<open>Auxiliary notions for stating the properties\<close>

text \<open>The row a data line stands for: the text before its first space character, and
  the array parsed from what follows that space.\<close>

definition row_of :: "(string \<Rightarrow> 'f list) \<Rightarrow> string \<Rightarrow> string \<times> 'f list" where
  "row_of fromstring line =
     (takeWhile (\<lambda>c. c \<noteq> CHR '' '') line,
      fromstring (tl (dropWhile (\<lambda>c. c \<noteq> CHR '' '') line)))"

text \<open>The token of a line in the words of the specification: the text before the
  first run of white space.\<close>

definition text_before_whitespace :: "string \<Rightarrow> string" where
  "text_before_whitespace line = takeWhile (\<lambda>c. \<not> is_space c) line"

text \<open>The storage after \<open>n\<close> writes of the same object to the same file, and the
  outcome of the write that follows them.\<close>

fun after_writes :: "'st torch_save \<Rightarrow> pydict \<Rightarrow> string \<Rightarrow> 'st \<Rightarrow> nat \<Rightarrow> 'st" where
  "after_writes save obj f st 0 = st"
| "after_writes save obj f st (Suc n) = snd (save obj f (after_writes save obj f st n))"

definition write_outcome :: "'st torch_save \<Rightarrow> pydict \<Rightarrow> string \<Rightarrow> 'st \<Rightarrow> nat \<Rightarrow> error + pyval" where
  "write_outcome save obj f st n = fst (save obj f (after_writes save obj f st n))"


section \<open>Concrete inputs\<close>

definition legacy_snapshot :: pydict where
  "legacy_snapshot =
     [(''args'', PObj 0), (''model'', PDict [(''w'', PObj 1)]), (''optimizer'', PObj 2),
      (''best_loss'', PObj 3), (''epoch'', PInt 4), (''batch_offset'', PInt 0),
      (''val_loss'', PObj 5)]"

definition upgraded_snapshot :: pydict where
  "upgraded_snapshot =
     [(''args'', PObj 0), (''model'', PDict [(''w'', PObj 1)]),
      (''optimizer_history'',
         PList [PDict [(''criterion_name'', PStr ''CrossEntropyCriterion''),
                       (''optimizer'', PObj 2), (''best_loss'', PObj 3)]]),
      (''extra_state'',
         PDict [(''epoch'', PInt 4), (''batch_offset'', PInt 0), (''val_loss'', PObj 5)])]"

text \<open>A storage that counts the writes it is asked for and refuses each of them,
  and one that refuses the first two.\<close>

definition full_disk :: "nat torch_save" where
  "full_disk obj f n = (Inl (IOError ''No space left on device''), Suc n)"

definition flaky_disk :: "nat torch_save" where
  "flaky_disk obj f n = (if n < 2 then Inl (IOError ''Input/output error'') else Inr PNone, Suc n)"

text \<open>
  An environment in which a model is its weights and an optimizer is its state,
  with one registered architecture.
\<close>

definition plain_env :: "(pyval, pyval, unit) env" where
  "plain_env =
     \<lparr>models = [''fconv'' \<mapsto> (\<lambda>args src_dict dst_dict. Inr PNone)],
      args_model = (\<lambda>args. case subscript_key args ''model'' of
                             Inr (PStr name) \<Rightarrow> Inr name
                           | _ \<Rightarrow> Inl TypeError),
      model_state_dict = (\<lambda>m. m),
      model_load_state_dict = (\<lambda>m weights. (Inr (), weights)),
      optimizer_state_dict = (\<lambda>opt. opt),
      optimizer_load_state_dict = (\<lambda>opt st. (Inr (), st))\<rparr>"

definition first_call :: "(pyval, pyval) save_call" where
  "first_call =
     \<lparr>call_filename = ''checkpoint1.pt'', call_args = PObj 0, call_model = PObj 1,
      call_criterion = \<lparr>class_name = ''CrossEntropyCriterion''\<rparr>, call_optimizer = PObj 2,
      call_scheduler = \<lparr>best = PObj 3\<rparr>, call_extra_state = None\<rparr>"

definition second_call :: "(pyval, pyval) save_call" where
  "second_call =
     \<lparr>call_filename = ''checkpoint2.pt'', call_args = PObj 0, call_model = PObj 4,
      call_criterion = \<lparr>class_name = ''LabelSmoothedCrossEntropyCriterion''\<rparr>,
      call_optimizer = PObj 5, call_scheduler = \<lparr>best = PObj 6\<rparr>,
      call_extra_state = Some (PDict [(''epoch'', PInt 2)])\<rparr>"

text \<open>The objects of a run before a load, with nothing logged, and two criteria.\<close>

definition fresh_objects :: "(pyval, pyval) objects" where
  "fresh_objects =
     \<lparr>model = PObj 10, optimizer = PObj 11, scheduler = \<lparr>best = PObj 12\<rparr>, logged = []\<rparr>"

definition cross_entropy :: criterion where
  "cross_entropy = \<lparr>class_name = ''CrossEntropyCriterion''\<rparr>"





text \<open>Two snapshots of one architecture with different weights, for an ensemble.\<close>

definition snapshot_a :: pydict where
  "snapshot_a =
     [(''args'', PDict [(''model'', PStr ''fconv'')]), (''model'', PDict [(''w'', PObj 1)]),
      (''optimizer_history'', PList []), (''extra_state'', PDict [])]"

definition snapshot_b :: pydict where
  "snapshot_b =
     [(''args'', PDict [(''model'', PStr ''lstm'')]), (''model'', PDict [(''w'', PObj 2)]),
      (''optimizer_history'', PList []), (''extra_state'', PDict [])]"

definition ensemble_dir :: checkpoints where
  "ensemble_dir = [''a.pt'' \<mapsto> snapshot_a, ''b.pt'' \<mapsto> snapshot_b]"

text \<open>Embedding files: the example of the documentation; one whose last row is
  shorter than the rows before it; one with a tab inside the first field; one whose
  data line has no space; one with a header only.\<close>

definition example_embedding :: string where
  "example_embedding =
     ''2 5\<newline>the -0.1 -0.2 0.3 0.1 0.4\<newline>at 0.0 0.1 -0.1 0.0 0.2\<newline>''"


definition tabbed_embedding :: string where
  "tabbed_embedding = ''1 1\<newline>a'' @ [CHR 0x09] @ ''b 1\<newline>''"

definition spaceless_embedding :: string where
  "spaceless_embedding = ''1 0\<newline>abc\<newline>''"

definition header_only_embedding :: string where
  "header_only_embedding = ''2 5\<newline>''"

section \<open>Facts about dictionaries and outcomes\<close>

lemma bind_result_Inr_iff: "bind_result m f = Inr y \<longleftrightarrow> (\<exists>x. m = Inr x \<and> f x = Inr y)"
  by (cases m) auto

lemma contains_setitem: "contains (setitem d k v) k' \<longleftrightarrow> k' = k \<or> contains d k'"
  by (simp add: contains_def setitem_def update_conv')

lemma delitem_Inr_iff: "delitem d k = Inr d' \<longleftrightarrow> contains d k \<and> d' = AList.delete k d"
  by (auto simp: delitem_def)

lemma contains_delete: "contains (AList.delete k d) k' \<longleftrightarrow> k' \<noteq> k \<and> contains d k'"
  by (simp add: contains_def delete_conv')

lemma getitem_Some: "map_of d k = Some v \<Longrightarrow> getitem d k = Inr v"
  by (simp add: getitem_def)

lemma range_3: "[0..<3] = [0, Suc 0, 2]"
  by (simp add: upt_rec)

section \<open>The upgrade procedure\<close>

lemma add_optimizer_history_contains:
  "add_optimizer_history s = Inr s' \<Longrightarrow> contains s' ''optimizer_history''"
  by (auto simp: add_optimizer_history_def bind_result_Inr_iff contains_setitem
      delitem_Inr_iff contains_delete split: if_splits)

lemma move_extra_state_keeps:
  "move_extra_state s = Inr s' \<Longrightarrow> contains s ''optimizer_history'' \<Longrightarrow> contains s' ''optimizer_history''"
  by (auto simp: move_extra_state_def bind_result_Inr_iff contains_setitem
      delitem_Inr_iff contains_delete split: if_splits)

lemma move_extra_state_done:
  "move_extra_state s = Inr s' \<Longrightarrow> \<not> contains s' ''epoch'' \<or> contains s' ''extra_state''"
  by (auto simp: move_extra_state_def bind_result_Inr_iff contains_setitem
      delitem_Inr_iff contains_delete split: if_splits)

lemma upgrade_fixed:
  "contains s ''optimizer_history'' \<Longrightarrow> \<not> contains s ''epoch'' \<or> contains s ''extra_state'' \<Longrightarrow>
   upgrade_state_dict s = Inr s"
  by (auto simp: upgrade_state_dict_def add_optimizer_history_def move_extra_state_def)

text \<open>
  C1. The upgrade procedure is idempotent. For every snapshot dictionary, applying
  \<^verbatim>\<open>_upgrade_state_dict\<close> to the result of a first application gives what the first
  application gave (an exception of the first application is the outcome of both);
  and a snapshot that has an \<^verbatim>\<open>optimizer_history\<close> field and an \<^verbatim>\<open>extra_state\<close> field is
  returned unchanged.
\<close>

theorem upgrade_idempotent:
  "upgrade_twice state = upgrade_state_dict state \<and>
   (contains state ''optimizer_history'' \<and> contains state ''extra_state''
      \<longrightarrow> upgrade_state_dict state = Inr state)"
proof
  show "upgrade_twice state = upgrade_state_dict state"
  proof (cases "upgrade_state_dict state")
    case (Inl e)
    then show ?thesis by (simp add: upgrade_twice_def)
  next
    case (Inr s')
    then obtain s1 where a: "add_optimizer_history state = Inr s1"
      and m: "move_extra_state s1 = Inr s'"
      by (auto simp: upgrade_state_dict_def bind_result_Inr_iff)
    have "contains s' ''optimizer_history''"
      using add_optimizer_history_contains[OF a] move_extra_state_keeps[OF m] by simp
    moreover have "\<not> contains s' ''epoch'' \<or> contains s' ''extra_state''"
      using move_extra_state_done[OF m] .
    ultimately have "upgrade_state_dict s' = Inr s'" by (rule upgrade_fixed)
    with Inr show ?thesis by (simp add: upgrade_twice_def)
  qed
  show "contains state ''optimizer_history'' \<and> contains state ''extra_state''
      \<longrightarrow> upgrade_state_dict state = Inr state"
    by (simp add: upgrade_fixed)
qed

text \<open>The legacy snapshot is upgraded to the current layout, and a second
  application returns that layout unchanged.\<close>

lemma upgrade_legacy_snapshot_value: "upgrade_state_dict legacy_snapshot = Inr upgraded_snapshot"
  by (simp add: upgrade_state_dict_def add_optimizer_history_def move_extra_state_def
      legacy_snapshot_def upgraded_snapshot_def contains_def getitem_def setitem_def
      delitem_def CrossEntropyCriterion_name_def)

theorem upgrade_idempotent_witness:
  "upgrade_state_dict legacy_snapshot = Inr upgraded_snapshot \<and>
   upgrade_twice legacy_snapshot = Inr upgraded_snapshot \<and>
   contains upgraded_snapshot ''optimizer_history'' \<and>
   contains upgraded_snapshot ''extra_state'' \<and>
   upgrade_state_dict upgraded_snapshot = Inr upgraded_snapshot"
  using upgrade_idempotent[of legacy_snapshot] upgrade_idempotent[of upgraded_snapshot]
    upgrade_legacy_snapshot_value
  by (simp add: contains_def upgraded_snapshot_def)

lemma add_optimizer_history_legacy:
  assumes "map_of state ''optimizer'' = Some opt"
    and "map_of state ''best_loss'' = Some bl"
    and "\<not> contains state ''optimizer_history''"
  shows "add_optimizer_history state =
     Inr (AList.delete ''best_loss'' (AList.delete ''optimizer''
       (AList.update ''optimizer_history''
          (PList [PDict [(''criterion_name'', PStr ''CrossEntropyCriterion''),
                         (''optimizer'', opt), (''best_loss'', bl)]]) state)))"
  using assms
  by (simp add: add_optimizer_history_def getitem_def setitem_def delitem_def contains_def
      CrossEntropyCriterion_name_def update_conv' delete_conv')

lemma move_extra_state_legacy:
  assumes "map_of state ''epoch'' = Some ep"
    and "map_of state ''batch_offset'' = Some bo"
    and "map_of state ''val_loss'' = Some vl"
    and "\<not> contains state ''extra_state''"
  shows "move_extra_state state =
     Inr (AList.delete ''val_loss'' (AList.delete ''batch_offset'' (AList.delete ''epoch''
       (AList.update ''extra_state''
          (PDict [(''epoch'', ep), (''batch_offset'', bo), (''val_loss'', vl)]) state))))"
  using assms
  by (simp add: move_extra_state_def getitem_def setitem_def delitem_def contains_def
      update_conv' delete_conv')

text \<open>
  C2. A snapshot in the first layout (fields \<^verbatim>\<open>model\<close>, \<^verbatim>\<open>optimizer\<close>, \<^verbatim>\<open>best_loss\<close>,
  \<^verbatim>\<open>epoch\<close>, \<^verbatim>\<open>batch_offset\<close>, \<^verbatim>\<open>val_loss\<close>, and neither \<^verbatim>\<open>optimizer_history\<close> nor
  \<^verbatim>\<open>extra_state\<close>) is upgraded without error to a snapshot whose optimizer history is
  the single entry made of the cross-entropy criterion name and the legacy
  optimizer and best loss, whose extra state holds exactly the legacy epoch, batch
  offset and validation loss, and in which none of the five legacy fields is left;
  the model and every other field are kept.
\<close>

theorem upgrade_legacy:
  assumes "map_of state ''model'' = Some m"
    and "map_of state ''optimizer'' = Some opt"
    and "map_of state ''best_loss'' = Some bl"
    and "map_of state ''epoch'' = Some ep"
    and "map_of state ''batch_offset'' = Some bo"
    and "map_of state ''val_loss'' = Some vl"
    and "\<not> contains state ''optimizer_history''"
    and "\<not> contains state ''extra_state''"
  shows "\<exists>state'. upgrade_state_dict state = Inr state' \<and>
     map_of state' ''optimizer_history'' =
       Some (PList [PDict [(''criterion_name'', PStr ''CrossEntropyCriterion''),
                           (''optimizer'', opt), (''best_loss'', bl)]]) \<and>
     map_of state' ''extra_state'' =
       Some (PDict [(''epoch'', ep), (''batch_offset'', bo), (''val_loss'', vl)]) \<and>
     (\<forall>k \<in> {''optimizer'', ''best_loss'', ''epoch'', ''batch_offset'', ''val_loss''}.
        \<not> contains state' k) \<and>
     map_of state' ''model'' = Some m \<and>
     (\<forall>k. k \<notin> {''optimizer_history'', ''extra_state'', ''optimizer'', ''best_loss'',
                ''epoch'', ''batch_offset'', ''val_loss''} \<longrightarrow> map_of state' k = map_of state k)"
proof -
  define h where "h = PList [PDict [(''criterion_name'', PStr ''CrossEntropyCriterion''),
                           (''optimizer'', opt), (''best_loss'', bl)]]"
  define x where "x = PDict [(''epoch'', ep), (''batch_offset'', bo), (''val_loss'', vl)]"
  define s1 where "s1 = AList.delete ''best_loss'' (AList.delete ''optimizer''
               (AList.update ''optimizer_history'' h state))"
  define s2 where "s2 = AList.delete ''val_loss'' (AList.delete ''batch_offset''
               (AList.delete ''epoch'' (AList.update ''extra_state'' x s1)))"
  have m1: "map_of s1 = (map_of state)(''optimizer_history'' \<mapsto> h,
              ''optimizer'' := None, ''best_loss'' := None)"
    unfolding s1_def by (simp only: update_conv' delete_conv')
  have m2: "map_of s2 = (map_of s1)(''extra_state'' \<mapsto> x,
              ''epoch'' := None, ''batch_offset'' := None, ''val_loss'' := None)"
    unfolding s2_def by (simp only: update_conv' delete_conv')
  have a: "add_optimizer_history state = Inr s1"
    unfolding s1_def h_def using assms(2,3,7) by (rule add_optimizer_history_legacy)
  have e1: "map_of s1 ''epoch'' = Some ep" using assms(4) by (simp add: m1)
  have e2: "map_of s1 ''batch_offset'' = Some bo" using assms(5) by (simp add: m1)
  have e3: "map_of s1 ''val_loss'' = Some vl" using assms(6) by (simp add: m1)
  have e4: "\<not> contains s1 ''extra_state''" using assms(8) by (simp add: contains_def m1)
  have b: "move_extra_state s1 = Inr s2"
    unfolding s2_def x_def using e1 e2 e3 e4 by (rule move_extra_state_legacy)
  have u: "upgrade_state_dict state = Inr s2"
    by (simp only: upgrade_state_dict_def a b bind_result.simps)
  have c1: "map_of s2 ''optimizer_history'' = Some h"
    by (simp add: m2 m1)
  have c2: "map_of s2 ''extra_state'' = Some x"
    by (simp add: m2)
  have c3: "\<forall>k \<in> {''optimizer'', ''best_loss'', ''epoch'', ''batch_offset'', ''val_loss''}.
        \<not> contains s2 k"
    by (simp add: contains_def m2 m1)
  have c4: "map_of s2 ''model'' = Some m"
    using assms(1) by (simp add: m2 m1)
  have c5: "\<forall>k. k \<notin> {''optimizer_history'', ''extra_state'', ''optimizer'', ''best_loss'',
                ''epoch'', ''batch_offset'', ''val_loss''} \<longrightarrow> map_of s2 k = map_of state k"
    by (simp add: m2 m1)
  show ?thesis
    apply (rule exI[of _ s2])
    using u c1 c2 c3 c4 c5 unfolding h_def x_def
    apply (intro conjI)
         apply assumption+
    done
qed

theorem upgrade_legacy_witness:
  "map_of legacy_snapshot ''model'' = Some (PDict [(''w'', PObj 1)]) \<and>
   \<not> contains legacy_snapshot ''optimizer_history'' \<and>
   \<not> contains legacy_snapshot ''extra_state'' \<and>
   (\<exists>state'. upgrade_state_dict legacy_snapshot = Inr state' \<and>
     map_of state' ''optimizer_history'' =
       Some (PList [PDict [(''criterion_name'', PStr ''CrossEntropyCriterion''),
                           (''optimizer'', PObj 2), (''best_loss'', PObj 3)]]) \<and>
     map_of state' ''extra_state'' =
       Some (PDict [(''epoch'', PInt 4), (''batch_offset'', PInt 0), (''val_loss'', PObj 5)]) \<and>
     \<not> contains state' ''optimizer'' \<and> \<not> contains state' ''epoch'' \<and>
     map_of state' ''model'' = Some (PDict [(''w'', PObj 1)]) \<and>
     map_of state' ''args'' = Some (PObj 0))"
proof -
  have h1: "map_of legacy_snapshot ''model'' = Some (PDict [(''w'', PObj 1)])"
    and h2: "map_of legacy_snapshot ''optimizer'' = Some (PObj 2)"
    and h3: "map_of legacy_snapshot ''best_loss'' = Some (PObj 3)"
    and h4: "map_of legacy_snapshot ''epoch'' = Some (PInt 4)"
    and h5: "map_of legacy_snapshot ''batch_offset'' = Some (PInt 0)"
    and h6: "map_of legacy_snapshot ''val_loss'' = Some (PObj 5)"
    and h7: "\<not> contains legacy_snapshot ''optimizer_history''"
    and h8: "\<not> contains legacy_snapshot ''extra_state''"
    and h9: "map_of legacy_snapshot ''args'' = Some (PObj 0)"
    by (simp_all add: legacy_snapshot_def contains_def)
  from upgrade_legacy[OF h1 h2 h3 h4 h5 h6 h7 h8] obtain state' where
    u: "upgrade_state_dict legacy_snapshot = Inr state'"
    and a: "map_of state' ''optimizer_history'' =
       Some (PList [PDict [(''criterion_name'', PStr ''CrossEntropyCriterion''),
                           (''optimizer'', PObj 2), (''best_loss'', PObj 3)]])"
    and b: "map_of state' ''extra_state'' =
       Some (PDict [(''epoch'', PInt 4), (''batch_offset'', PInt 0), (''val_loss'', PObj 5)])"
    and c: "\<forall>k \<in> {''optimizer'', ''best_loss'', ''epoch'', ''batch_offset'', ''val_loss''}.
        \<not> contains state' k"
    and d: "map_of state' ''model'' = Some (PDict [(''w'', PObj 1)])"
    and e: "\<forall>k. k \<notin> {''optimizer_history'', ''extra_state'', ''optimizer'', ''best_loss'',
                ''epoch'', ''batch_offset'', ''val_loss''} \<longrightarrow> map_of state' k = map_of legacy_snapshot k"
    by blast
  from e have "map_of state' ''args'' = map_of legacy_snapshot ''args''" by simp
  with h9 have f: "map_of state' ''args'' = Some (PObj 0)" by simp
  from c have g: "\<not> contains state' ''optimizer''" "\<not> contains state' ''epoch''" by simp_all
  from u a b d f g h1 h7 h8 show ?thesis by blast
qed

section \<open>Saving\<close>

text \<open>
  C4. \<^verbatim>\<open>torch_persistent_save\<close> never raises, whatever the storage write does. It makes
  \<open>n\<close> writes with \<open>n\<close> one of 1, 2, 3; all writes before the last one failed; if the
  last one returned, its value is returned and nothing is logged; if it failed, then
  \<open>n = 3\<close>, the call returns \<^verbatim>\<open>None\<close> and exactly one record, of that third failure, is
  logged.
\<close>

theorem torch_persistent_save_returns:
  fixes save :: "'st torch_save"
  shows "\<exists>n \<in> {1, 2, 3}.
     (\<forall>k < n - 1. \<exists>e. write_outcome save obj f st k = Inl e) \<and>
     (case write_outcome save obj f st (n - 1) of
        Inr v \<Rightarrow> torch_persistent_save save obj f st lg = (Inr v, after_writes save obj f st n, lg)
      | Inl e \<Rightarrow> n = 3 \<and>
          torch_persistent_save save obj f st lg =
            (Inr PNone, after_writes save obj f st n, lg @ [LogError e]))"
proof -
  obtain r1 s1 where a1: "save obj f st = (r1, s1)" by (cases "save obj f st")
  obtain r2 s2 where a2: "save obj f s1 = (r2, s2)" by (cases "save obj f s1")
  obtain r3 s3 where a3: "save obj f s2 = (r3, s3)" by (cases "save obj f s2")
  have w0: "write_outcome save obj f st 0 = r1" by (simp add: write_outcome_def a1)
  have w1: "write_outcome save obj f st (Suc 0) = r2" by (simp add: write_outcome_def a1 a2)
  have w2: "write_outcome save obj f st 2 = r3"
    by (simp add: write_outcome_def a1 a2 a3 numeral_2_eq_2)
  have s1: "after_writes save obj f st (Suc 0) = s1" by (simp add: a1)
  have s2: "after_writes save obj f st 2 = s2" by (simp add: a1 a2 numeral_2_eq_2)
  have s3: "after_writes save obj f st 3 = s3" by (simp add: a1 a2 a3 numeral_3_eq_3)
  show ?thesis
  proof (cases r1)
    case (Inr v)
    then show ?thesis
      by (intro bexI[of _ 1]) (simp_all add: w0 s1 torch_persistent_save_def range_3 a1)
  next
    case e1: (Inl e1)
    show ?thesis
    proof (cases r2)
      case (Inr v)
      then show ?thesis using e1
        by (intro bexI[of _ 2]) (simp_all add: w0 w1 s2 torch_persistent_save_def range_3 a1 a2)
    next
      case e2: (Inl e2)
      have two: "\<forall>k < 3 - (1::nat). \<exists>e. write_outcome save obj f st k = Inl e"
      proof (intro allI impI)
        fix k :: nat assume "k < 3 - 1"
        then have "k = 0 \<or> k = Suc 0" by auto
        then show "\<exists>e. write_outcome save obj f st k = Inl e"
          using e1 e2 w0 w1 by auto
      qed
      show ?thesis
      proof (cases r3)
        case (Inr v)
        then show ?thesis using e1 e2 two
          by (intro bexI[of _ 3])
            (simp_all add: w2 s3 torch_persistent_save_def range_3 a1 a2 a3)
      next
        case (Inl e3)
        then show ?thesis using e1 e2 two
          by (intro bexI[of _ 3])
            (simp_all add: w2 s3 torch_persistent_save_def range_3 a1 a2 a3)
      qed
    qed
  qed
qed

lemma full_disk_run:
  "torch_persistent_save full_disk upgraded_snapshot ''checkpoint.pt'' 0 [] =
     (Inr PNone, 3, [LogError (IOError ''No space left on device'')])"
  by (simp add: torch_persistent_save_def range_3 full_disk_def)

lemma flaky_disk_run:
  "torch_persistent_save flaky_disk upgraded_snapshot ''checkpoint.pt'' 0 [] = (Inr PNone, 3, [])"
  by (simp add: torch_persistent_save_def range_3 flaky_disk_def)

theorem torch_persistent_save_returns_witness:
  "torch_persistent_save full_disk upgraded_snapshot ''checkpoint.pt'' 0 [] =
     (Inr PNone, 3, [LogError (IOError ''No space left on device'')]) \<and>
   (\<exists>n \<in> {1, 2, 3}.
     (\<forall>k < n - 1. \<exists>e. write_outcome full_disk upgraded_snapshot ''checkpoint.pt'' 0 k = Inl e) \<and>
     (case write_outcome full_disk upgraded_snapshot ''checkpoint.pt'' 0 (n - 1) of
        Inr v \<Rightarrow> torch_persistent_save full_disk upgraded_snapshot ''checkpoint.pt'' 0 [] =
                  (Inr v, after_writes full_disk upgraded_snapshot ''checkpoint.pt'' 0 n, [])
      | Inl e \<Rightarrow> n = 3 \<and>
          torch_persistent_save full_disk upgraded_snapshot ''checkpoint.pt'' 0 [] =
            (Inr PNone, after_writes full_disk upgraded_snapshot ''checkpoint.pt'' 0 n,
             [] @ [LogError e])))"
  using torch_persistent_save_returns[of full_disk upgraded_snapshot "''checkpoint.pt''" 0 "[]"]
    full_disk_run
  by blast

section \<open>Successive saves\<close>









text \<open>Two saves on a storage that refuses its first two writes: the first call asks
  three times, the second once, and nothing is logged.\<close>

lemma two_saves_flaky:
  "successive_saves plain_env flaky_disk [first_call, second_call] None 0 [] =
     ([replicate 3 (''checkpoint1.pt'',
         [(''args'', PObj 0), (''model'', PObj 1),
          (''optimizer_history'',
             PList [PDict [(''criterion_name'', PStr ''CrossEntropyCriterion''),
                           (''optimizer'', PObj 2), (''best_loss'', PObj 3)]]),
          (''extra_state'', PDict [])]),
       [(''checkpoint2.pt'',
         [(''args'', PObj 0), (''model'', PObj 4),
          (''optimizer_history'',
             PList [PDict [(''criterion_name'', PStr ''CrossEntropyCriterion''),
                           (''optimizer'', PObj 2), (''best_loss'', PObj 3)],
                    PDict [(''criterion_name'', PStr ''LabelSmoothedCrossEntropyCriterion''),
                           (''optimizer'', PObj 5), (''best_loss'', PObj 6)]]),
          (''extra_state'', PDict [(''epoch'', PInt 2)])])]],
      4, [])"
  by (simp add: run_call_def save_state_def torch_persistent_save_def range_3 flaky_disk_def
      state_dict_def optimizer_entry_def plain_env_def first_call_def second_call_def
      written_history_def history_of_def numeral_3_eq_3)


section \<open>Loading\<close>

text \<open>
  C6. When no file exists at the path, \<^verbatim>\<open>load_state\<close> returns the pair of \<^verbatim>\<open>None\<close> (no
  extra state) and the empty history, raises nothing, and leaves the model, the
  optimizer, the scheduler and the log as they were; the criterion is only read.
\<close>

theorem load_state_not_found:
  "\<not> path_exists fs filename \<Longrightarrow>
     load_state env fs filename crit cuda_device w = (Inr (PNone, PList []), w)"
  by (simp add: load_state_def returns_def)

theorem load_state_not_found_witness:
  "\<not> path_exists Map.empty ''checkpoint_last.pt'' \<and>
   load_state plain_env Map.empty ''checkpoint_last.pt'' cross_entropy None fresh_objects =
     (Inr (PNone, PList []), fresh_objects)"
  using load_state_not_found[of Map.empty "''checkpoint_last.pt''" plain_env cross_entropy
      None fresh_objects]
  by (simp add: path_exists_def)

text \<open>Whatever the outcome of a load, it changes the optimizer or the scheduler only
  after it has found the criterion name of the last history entry equal to the type
  name of the current criterion, and it never logs.\<close>

lemma load_state_restores_only_on_match:
  assumes "load_state env fs filename crit cuda_device w = (r, w')"
    and "optimizer w' \<noteq> optimizer w \<or> scheduler w' \<noteq> scheduler w"
  shows "\<exists>state0 state hist entry.
           fs filename = Some state0 \<and> upgrade_state_dict state0 = Inr state \<and>
           map_of state ''optimizer_history'' = Some hist \<and>
           subscript_last hist = Inr entry \<and>
           subscript_key entry ''criterion_name'' = Inr (PStr (class_name crit))"
  using assms
  by (auto simp: load_state_def bind_run_def lift_result_def returns_def model_load_def
      optimizer_load_def set_best_def torch_load_def path_exists_def getitem_def
      split: if_splits option.splits sum.splits prod.splits)

lemma load_state_never_logs:
  "logged (snd (load_state env fs filename crit cuda_device w)) = logged w"
  by (auto simp: load_state_def bind_run_def lift_result_def returns_def model_load_def
      optimizer_load_def set_best_def torch_load_def path_exists_def getitem_def
      split: if_splits option.splits sum.splits prod.splits)




section \<open>Loading an ensemble\<close>

lemma torch_load_existing: "fs filename = Some state \<Longrightarrow> torch_load fs filename loc = Inr state"
  by (simp add: torch_load_def)

lemma load_states_missing:
  assumes "\<forall>q \<in> set pre. path_exists fs q" and "\<not> path_exists fs p"
  shows "load_states fs (pre @ p # post) states =
           Inl (IOError (''Model file not found: '' @ p))"
  using assms
proof (induction pre arbitrary: states)
  case Nil
  then show ?case by simp
next
  case (Cons q pre)
  from Cons.prems obtain state where "fs q = Some state"
    by (auto simp: path_exists_def)
  with Cons show ?case
    by (simp add: torch_load_existing path_exists_def)
qed

lemma load_states_all:
  assumes "map fs filenames = map Some loaded"
  shows "load_states fs filenames states = Inr (states @ loaded)"
  using assms
proof (induction filenames arbitrary: states loaded)
  case Nil
  then show ?case by simp
next
  case (Cons q filenames)
  from Cons.prems obtain state rest where l: "loaded = state # rest"
    and q: "fs q = Some state" and r: "map fs filenames = map Some rest"
    by (cases loaded) auto
  from Cons.IH[OF r] q l show ?case
    by (simp add: torch_load_existing path_exists_def)
qed

lemma build_ensemble_all:
  assumes "build_model env args src_dict dst_dict = Inr mdl"
    and "map (\<lambda>state. map_of state ''model'') loaded = map Some weights"
    and "\<forall>w \<in> set weights. fst (model_load_state_dict env mdl w) = Inr ()"
  shows "build_ensemble env args src_dict dst_dict loaded ensemble =
           Inr (ensemble @ map (\<lambda>w. snd (model_load_state_dict env mdl w)) weights)"
  using assms(2,3)
proof (induction loaded arbitrary: ensemble weights)
  case Nil
  then show ?case by simp
next
  case (Cons state loaded)
  from Cons.prems(1) obtain w rest where ws: "weights = w # rest"
    and w: "map_of state ''model'' = Some w"
    and r: "map (\<lambda>state. map_of state ''model'') loaded = map Some rest"
    by (cases weights) auto
  from Cons.prems(2) ws have ok: "fst (model_load_state_dict env mdl w) = Inr ()"
    and rest_ok: "\<forall>w \<in> set rest. fst (model_load_state_dict env mdl w) = Inr ()"
    by simp_all
  obtain m' where l: "model_load_state_dict env mdl w = (Inr (), m')"
    using ok by (cases "model_load_state_dict env mdl w") auto
  from Cons.IH[OF r rest_ok] ws w l assms(1) show ?case
    by (simp add: getitem_def)
qed

text \<open>
  C7 (as the code has it). If a path of the list does not exist and all paths before
  it do, the load fails with the error raised for that path,
  \<^verbatim>\<open>IOError('Model file not found: ...')\<close>, whatever paths follow it and whatever they
  hold. If the list is not empty, all its paths exist, the first snapshot has a
  configuration from which a model can be built, and every snapshot has weights that
  the model accepts, the result has one model per path, in the order of the paths,
  each built from the first snapshot's configuration and loaded with the weights of
  its own snapshot.
\<close>

theorem load_ensemble_result:
  "((\<forall>q \<in> set pre. path_exists fs q) \<longrightarrow> \<not> path_exists fs p \<longrightarrow>
      load_ensemble_for_inference env fs (pre @ p # post) src_dict dst_dict =
        Inl (IOError (''Model file not found: '' @ p))) \<and>
   (filenames \<noteq> [] \<longrightarrow> map fs filenames = map Some loaded \<longrightarrow>
      map_of (hd loaded) ''args'' = Some args \<longrightarrow>
      build_model env args src_dict dst_dict = Inr mdl \<longrightarrow>
      map (\<lambda>state. map_of state ''model'') loaded = map Some weights \<longrightarrow>
      (\<forall>w \<in> set weights. fst (model_load_state_dict env mdl w) = Inr ()) \<longrightarrow>
      load_ensemble_for_inference env fs filenames src_dict dst_dict =
        Inr (map (\<lambda>w. snd (model_load_state_dict env mdl w)) weights) \<and>
      length weights = length filenames)"
proof (intro conjI impI)
  assume "\<forall>q \<in> set pre. path_exists fs q" and "\<not> path_exists fs p"
  then show "load_ensemble_for_inference env fs (pre @ p # post) src_dict dst_dict =
        Inl (IOError (''Model file not found: '' @ p))"
    by (simp add: load_ensemble_for_inference_def load_states_missing)
next
  assume ne: "filenames \<noteq> []" and fs: "map fs filenames = map Some loaded"
    and args: "map_of (hd loaded) ''args'' = Some args"
    and bm: "build_model env args src_dict dst_dict = Inr mdl"
    and ws: "map (\<lambda>state. map_of state ''model'') loaded = map Some weights"
    and ok: "\<forall>w \<in> set weights. fst (model_load_state_dict env mdl w) = Inr ()"
  from fs have len: "length loaded = length filenames"
    by (metis length_map)
  with ne obtain s0 rest where l: "loaded = s0 # rest"
    by (cases loaded) auto
  from ws have "length weights = length loaded"
    by (metis length_map)
  with len show "length weights = length filenames" by simp
  from args l have a: "getitem s0 ''args'' = Inr args"
    by (simp add: getitem_def)
  have "load_states fs filenames [] = Inr loaded"
    using load_states_all[OF fs, of "[]"] by simp
  moreover have "build_ensemble env args src_dict dst_dict loaded [] =
      Inr (map (\<lambda>w. snd (model_load_state_dict env mdl w)) weights)"
    using build_ensemble_all[OF bm ws ok, of "[]"] by simp
  ultimately show "load_ensemble_for_inference env fs filenames src_dict dst_dict =
        Inr (map (\<lambda>w. snd (model_load_state_dict env mdl w)) weights)"
    using a l by (simp add: load_ensemble_for_inference_def)
qed

theorem load_ensemble_result_witness:
  "load_ensemble_for_inference plain_env ensemble_dir [''a.pt'', ''missing.pt'', ''b.pt''] () () =
     Inl (IOError ''Model file not found: missing.pt'') \<and>
   load_ensemble_for_inference plain_env ensemble_dir [''a.pt'', ''b.pt''] () () =
     Inr [PDict [(''w'', PObj 1)], PDict [(''w'', PObj 2)]]"
proof -
  have e: "\<forall>q \<in> set [''a.pt'']. path_exists ensemble_dir q"
    and m: "\<not> path_exists ensemble_dir ''missing.pt''"
    by (simp_all add: path_exists_def ensemble_dir_def)
  have ne: "[''a.pt'', ''b.pt''] \<noteq> []" by simp
  have fs: "map ensemble_dir [''a.pt'', ''b.pt''] = map Some [snapshot_a, snapshot_b]"
    by (simp add: ensemble_dir_def)
  have args: "map_of (hd [snapshot_a, snapshot_b]) ''args'' =
      Some (PDict [(''model'', PStr ''fconv'')])"
    by (simp add: snapshot_a_def)
  have bm: "build_model plain_env (PDict [(''model'', PStr ''fconv'')]) () () = Inr PNone"
    by (simp add: build_model_def plain_env_def getitem_def)
  have ws: "map (\<lambda>state. map_of state ''model'') [snapshot_a, snapshot_b] =
      map Some [PDict [(''w'', PObj 1)], PDict [(''w'', PObj 2)]]"
    by (simp add: snapshot_a_def snapshot_b_def)
  have ok: "\<forall>w \<in> set [PDict [(''w'', PObj 1)], PDict [(''w'', PObj 2)]].
      fst (model_load_state_dict plain_env PNone w) = Inr ()"
    by (simp add: plain_env_def)
  have v: "map (\<lambda>w. snd (model_load_state_dict plain_env PNone w))
      [PDict [(''w'', PObj 1)], PDict [(''w'', PObj 2)]] =
      [PDict [(''w'', PObj 1)], PDict [(''w'', PObj 2)]]"
    by (simp add: plain_env_def)
  note t = load_ensemble_result[where fs = ensemble_dir and env = plain_env
      and pre = "[''a.pt'']" and p = "''missing.pt''" and post = "[''b.pt'']"
      and filenames = "[''a.pt'', ''b.pt'']" and loaded = "[snapshot_a, snapshot_b]"
      and args = "PDict [(''model'', PStr ''fconv'')]" and mdl = PNone
      and weights = "[PDict [(''w'', PObj 1)], PDict [(''w'', PObj 2)]]"
      and src_dict = "()" and dst_dict = "()"]
  from t e m have one: "load_ensemble_for_inference plain_env ensemble_dir
      ([''a.pt''] @ ''missing.pt'' # [''b.pt'']) () () =
      Inl (IOError (''Model file not found: '' @ ''missing.pt''))"
    by blast
  from t ne fs args bm ws ok have two: "load_ensemble_for_inference plain_env ensemble_dir
      [''a.pt'', ''b.pt''] () () =
      Inr (map (\<lambda>w. snd (model_load_state_dict plain_env PNone w))
        [PDict [(''w'', PObj 1)], PDict [(''w'', PObj 2)]])"
    by blast
  from one two v show ?thesis by simp
qed

text \<open>
  The specification speaks of every list of paths and names the error
  \<^verbatim>\<open>FileNotFoundError\<close>. For the empty list all paths exist, and the load raises
  \<^verbatim>\<open>IndexError\<close> at \<^verbatim>\<open>states[0]\<close> instead of returning an empty ensemble; for a missing
  path the exception raised is an \<^verbatim>\<open>IOError\<close>.
\<close>

theorem load_ensemble_empty_list:
  "load_ensemble_for_inference plain_env ensemble_dir [] () () = Inl IndexError \<and>
   load_ensemble_for_inference plain_env ensemble_dir [''missing.pt'', ''b.pt''] () () =
     Inl (IOError ''Model file not found: missing.pt'')"
  by (simp add: load_ensemble_for_inference_def path_exists_def ensemble_dir_def)

section \<open>Parsing an embedding file\<close>

lemma split_space_1_row:
  "CHR '' '' \<in> set line \<Longrightarrow>
     split_space_1 line =
       [takeWhile (\<lambda>c. c \<noteq> CHR '' '') line, tl (dropWhile (\<lambda>c. c \<noteq> CHR '' '') line)]"
  by (simp add: split_space_1_def)

lemma split_space_1_whole: "CHR '' '' \<notin> set line \<Longrightarrow> split_space_1 line = [line]"
  by (simp add: split_space_1_def)

text \<open>The data lines all contain a space: the loop enters one row per line, in order,
  and leaves the key of the last line in \<^verbatim>\<open>word\<close>.\<close>

lemma embedding_loop_rows:
  assumes "0 < n" and "\<forall>l \<in> set ls. CHR '' '' \<in> set l"
  shows "embedding_loop fromstring (enumerate n ls) d word =
     Inr (foldl (\<lambda>d l. AList.update (fst (row_of fromstring l)) (snd (row_of fromstring l)) d) d ls,
          if ls = [] then word else Some (fst (row_of fromstring (last ls))))"
  using assms
proof (induction ls arbitrary: n d word)
  case Nil
  then show ?case by simp
next
  case (Cons l ls)
  from Cons.prems have sp: "CHR '' '' \<in> set l" and rest: "\<forall>l \<in> set ls. CHR '' '' \<in> set l"
    by simp_all
  have "0 < Suc n" by simp
  from Cons.IH[OF this rest] Cons.prems(1) sp show ?case
    by (simp add: split_space_1_row row_of_def)
qed

text \<open>Some data line has no space: the unpacking raises.\<close>

lemma embedding_loop_raises:
  assumes "0 < n" and "\<exists>l \<in> set ls. CHR '' '' \<notin> set l"
  shows "embedding_loop fromstring (enumerate n ls) d word = Inl ValueError"
  using assms
proof (induction ls arbitrary: n d word)
  case Nil
  then show ?case by simp
next
  case (Cons l ls)
  show ?case
  proof (cases "CHR '' '' \<in> set l")
    case True
    with Cons.prems have "\<exists>l \<in> set ls. CHR '' '' \<notin> set l" by auto
    from Cons.IH[OF _ this, of "Suc n"] True Cons.prems(1) show ?thesis
      by (simp add: split_space_1_row)
  next
    case False
    with Cons.prems(1) show ?thesis
      by (simp add: split_space_1_whole)
  qed
qed

lemma map_of_rows:
  "map_of (foldl (\<lambda>d l. AList.update (fst (row l)) (snd (row l)) d) d ls) =
     map_of (rev (map row ls) @ d)"
proof (induction ls arbitrary: d)
  case Nil
  then show ?case by simp
next
  case (Cons l ls)
  have "map_of (rev (map row ls) @ AList.update (fst (row l)) (snd (row l)) d) =
      map_of (rev (map row ls) @ [row l] @ d)"
    by (simp add: update_conv' fun_eq_iff map_add_def split: option.splits)
  with Cons.IH[of "AList.update (fst (row l)) (snd (row l)) d"] show ?case
    by simp
qed

lemma distinct_rows:
  "distinct (map fst d) \<Longrightarrow>
     distinct (map fst (foldl (\<lambda>d l. AList.update (fst (row l)) (snd (row l)) d) d ls))"
  by (induction ls arbitrary: d) (simp_all add: distinct_update)

lemma last_row_present:
  "ls \<noteq> [] \<Longrightarrow> map_of (rev (map row ls) @ d) (fst (row (last ls))) = Some (snd (row (last ls)))"
  by (cases ls rule: rev_cases) simp_all

text \<open>What \<^verbatim>\<open>parse_embedding\<close> returns for a file with a first line and data lines that
  all contain a space.\<close>

lemma parse_embedding_rows:
  assumes "files embed_path = Some content"
    and "readlines content = header # body"
    and "body \<noteq> []"
    and "\<forall>l \<in> set body. CHR '' '' \<in> set l"
  shows "\<exists>table. parse_embedding fromstring files embed_path =
           Inr (table, print_mismatches (length (snd (row_of fromstring (last body)))) table) \<and>
         map_of table = map_of (rev (map (row_of fromstring) body)) \<and>
         distinct (map fst table)"
proof -
  define table where "table =
    foldl (\<lambda>d l. AList.update (fst (row_of fromstring l)) (snd (row_of fromstring l)) d) [] body"
  have loop: "embedding_loop fromstring (enumerate 0 (readlines content)) [] None =
      Inr (table, Some (fst (row_of fromstring (last body))))"
    using embedding_loop_rows[OF _ assms(4), of "Suc 0" fromstring "[]" None] assms(2,3)
    by (simp add: table_def)
  have m: "map_of table = map_of (rev (map (row_of fromstring) body))"
    unfolding table_def using map_of_rows[of "row_of fromstring" "[]" body] by simp
  have d: "distinct (map fst table)"
    unfolding table_def by (rule distinct_rows) simp
  have l: "map_of table (fst (row_of fromstring (last body))) =
      Some (snd (row_of fromstring (last body)))"
    using last_row_present[OF assms(3), of "row_of fromstring" "[]"] by (simp add: m)
  have "parse_embedding fromstring files embed_path =
      Inr (table, print_mismatches (length (snd (row_of fromstring (last body)))) table)"
    by (simp add: parse_embedding_def assms(1) loop l)
  with m d show ?thesis by blast
qed

lemma parse_embedding_raises:
  assumes "files embed_path = Some content"
    and "readlines content = header # body"
    and "\<exists>l \<in> set body. CHR '' '' \<notin> set l"
  shows "parse_embedding fromstring files embed_path = Inl ValueError"
  using embedding_loop_raises[OF _ assms(3), of "Suc 0" fromstring "[]" None] assms(1,2)
  by (simp add: parse_embedding_def)

lemma parse_embedding_no_rows:
  assumes "files embed_path = Some content" and "length (readlines content) \<le> 1"
  shows "parse_embedding fromstring files embed_path = Inl (KeyError PNone)"
proof (cases "readlines content")
  case Nil
  with assms(1) show ?thesis by (simp add: parse_embedding_def)
next
  case (Cons header body)
  with assms(2) have "body = []" by simp
  with Cons assms(1) show ?thesis by (simp add: parse_embedding_def)
qed

lemma readlines_example:
  "readlines example_embedding =
     [''2 5\<newline>'', ''the -0.1 -0.2 0.3 0.1 0.4\<newline>'', ''at 0.0 0.1 -0.1 0.0 0.2\<newline>'']"
  by (simp add: readlines_def example_embedding_def)

text \<open>
  C8 (as the code has it). The first line is skipped whatever it holds: the result
  does not depend on it. When at least one line follows it and every following line
  contains a space character, the parser returns a table whose keys are exactly the
  texts before the first space character of these lines, each with the array parsed
  from the rest of its line (of the last such line, if a key occurs more than once).
  In particular the documented example file yields exactly the two entries
  \<^verbatim>\<open>the\<close> and \<^verbatim>\<open>at\<close>, in this order, each with the array parsed from its five numbers.
\<close>

theorem parse_embedding_table:
  "(files embed_path = Some content \<longrightarrow> readlines content = header # body \<longrightarrow> body \<noteq> [] \<longrightarrow>
      (\<forall>l \<in> set body. CHR '' '' \<in> set l) \<longrightarrow>
      (\<exists>table printed.
          parse_embedding fromstring files embed_path = Inr (table, printed) \<and>
          map_of table = map_of (rev (map (row_of fromstring) body)) \<and>
          fst ` set table = (\<lambda>l. fst (row_of fromstring l)) ` set body \<and>
          distinct (map fst table))) \<and>
   (\<exists>printed.
      parse_embedding fromstring [''embed.content'' \<mapsto> example_embedding] ''embed.content'' =
        Inr ([(''the'', fromstring ''-0.1 -0.2 0.3 0.1 0.4\<newline>''),
              (''at'', fromstring ''0.0 0.1 -0.1 0.0 0.2\<newline>'')], printed))"
proof (intro conjI impI)
  assume a: "files embed_path = Some content" "readlines content = header # body" "body \<noteq> []"
    "\<forall>l \<in> set body. CHR '' '' \<in> set l"
  from parse_embedding_rows[where files = files and embed_path = embed_path
      and fromstring = fromstring, OF a] obtain table where
    p: "parse_embedding fromstring files embed_path =
          Inr (table, print_mismatches (length (snd (row_of fromstring (last body)))) table)"
    and m: "map_of table = map_of (rev (map (row_of fromstring) body))"
    and d: "distinct (map fst table)"
    by blast
  have "fst ` set table = dom (map_of table)"
    by (simp add: dom_map_of_conv_image_fst)
  also have "\<dots> = fst ` set (rev (map (row_of fromstring) body))"
    by (simp only: m dom_map_of_conv_image_fst)
  also have "\<dots> = (\<lambda>l. fst (row_of fromstring l)) ` set body"
    by (simp add: image_image)
  finally have k: "fst ` set table = (\<lambda>l. fst (row_of fromstring l)) ` set body" .
  from p m k d show "\<exists>table printed.
          parse_embedding fromstring files embed_path = Inr (table, printed) \<and>
          map_of table = map_of (rev (map (row_of fromstring) body)) \<and>
          fst ` set table = (\<lambda>l. fst (row_of fromstring l)) ` set body \<and>
          distinct (map fst table)"
    by blast
next
  show "\<exists>printed.
      parse_embedding fromstring [''embed.content'' \<mapsto> example_embedding] ''embed.content'' =
        Inr ([(''the'', fromstring ''-0.1 -0.2 0.3 0.1 0.4\<newline>''),
              (''at'', fromstring ''0.0 0.1 -0.1 0.0 0.2\<newline>'')], printed)"
    by (simp add: parse_embedding_def readlines_example split_space_1_def)
qed

lemma literal_fromstring_example:
  "literal_fromstring ''-0.1 -0.2 0.3 0.1 0.4\<newline>'' = [''-0.1'', ''-0.2'', ''0.3'', ''0.1'', ''0.4'']"
  "literal_fromstring ''0.0 0.1 -0.1 0.0 0.2\<newline>'' = [''0.0'', ''0.1'', ''-0.1'', ''0.0'', ''0.2'']"
  by (simp_all add: literal_fromstring_def is_space_def)

theorem parse_embedding_table_witness:
  "[''embed.content'' \<mapsto> example_embedding] ''embed.content'' = Some example_embedding \<and>
   readlines example_embedding =
     ''2 5\<newline>'' # [''the -0.1 -0.2 0.3 0.1 0.4\<newline>'', ''at 0.0 0.1 -0.1 0.0 0.2\<newline>''] \<and>
   (\<exists>table printed.
      parse_embedding literal_fromstring [''embed.content'' \<mapsto> example_embedding] ''embed.content'' =
        Inr (table, printed) \<and>
      fst ` set table = {''the'', ''at''} \<and>
      map_of table ''the'' = Some [''-0.1'', ''-0.2'', ''0.3'', ''0.1'', ''0.4''] \<and>
      map_of table ''at'' = Some [''0.0'', ''0.1'', ''-0.1'', ''0.0'', ''0.2'']) \<and>
   (\<exists>printed.
      parse_embedding literal_fromstring [''embed.content'' \<mapsto> example_embedding] ''embed.content'' =
        Inr ([(''the'', [''-0.1'', ''-0.2'', ''0.3'', ''0.1'', ''0.4'']),
              (''at'', [''0.0'', ''0.1'', ''-0.1'', ''0.0'', ''0.2''])], printed))"
proof -
  let ?body = "[''the -0.1 -0.2 0.3 0.1 0.4\<newline>'', ''at 0.0 0.1 -0.1 0.0 0.2\<newline>'']"
  have f: "[''embed.content'' \<mapsto> example_embedding] ''embed.content'' = Some example_embedding"
    by simp
  have r: "readlines example_embedding = ''2 5\<newline>'' # ?body"
    by (simp add: readlines_example)
  have n: "?body \<noteq> []" by simp
  have s: "\<forall>l \<in> set ?body. CHR '' '' \<in> set l" by simp
  have r1: "row_of literal_fromstring ''the -0.1 -0.2 0.3 0.1 0.4\<newline>'' =
      (''the'', [''-0.1'', ''-0.2'', ''0.3'', ''0.1'', ''0.4''])"
    by (simp add: row_of_def literal_fromstring_example)
  have r2: "row_of literal_fromstring ''at 0.0 0.1 -0.1 0.0 0.2\<newline>'' =
      (''at'', [''0.0'', ''0.1'', ''-0.1'', ''0.0'', ''0.2''])"
    by (simp add: row_of_def literal_fromstring_example)
  note t = parse_embedding_table[where files = "[''embed.content'' \<mapsto> example_embedding]"
      and embed_path = "''embed.content''" and content = example_embedding and header = "''2 5\<newline>''"
      and body = "?body" and fromstring = literal_fromstring]
  from t f r n s obtain table printed where
    p: "parse_embedding literal_fromstring [''embed.content'' \<mapsto> example_embedding] ''embed.content'' =
          Inr (table, printed)"
    and m: "map_of table = map_of (rev (map (row_of literal_fromstring) ?body))"
    and k: "fst ` set table = (\<lambda>l. fst (row_of literal_fromstring l)) ` set ?body"
    by blast
  from k have k': "fst ` set table = {''the'', ''at''}"
    by (simp add: r1 r2)
  from m have m1: "map_of table ''the'' = Some [''-0.1'', ''-0.2'', ''0.3'', ''0.1'', ''0.4'']"
    and m2: "map_of table ''at'' = Some [''0.0'', ''0.1'', ''-0.1'', ''0.0'', ''0.2'']"
    by (simp_all add: r1 r2)
  from t have "\<exists>printed.
      parse_embedding literal_fromstring [''embed.content'' \<mapsto> example_embedding] ''embed.content'' =
        Inr ([(''the'', literal_fromstring ''-0.1 -0.2 0.3 0.1 0.4\<newline>''),
              (''at'', literal_fromstring ''0.0 0.1 -0.1 0.0 0.2\<newline>'')], printed)"
    by blast
  then have e: "\<exists>printed.
      parse_embedding literal_fromstring [''embed.content'' \<mapsto> example_embedding] ''embed.content'' =
        Inr ([(''the'', [''-0.1'', ''-0.2'', ''0.3'', ''0.1'', ''0.4'']),
              (''at'', [''0.0'', ''0.1'', ''-0.1'', ''0.0'', ''0.2''])], printed)"
    by (simp only: literal_fromstring_example)
  from f r p k' m1 m2 e show ?thesis by blast
qed

text \<open>
  The specification keys a line by the text before its first run of white space
  and gives every line after the first an entry. A line whose first field holds a tab
  is keyed by the text up to its first space, tab included, where the text before the
  first white space is \<^verbatim>\<open>a\<close>; a line without a space gets no entry: the parse raises
  \<^verbatim>\<open>ValueError\<close>.
\<close>

theorem parse_embedding_first_space_only:
  "parse_embedding literal_fromstring [''embed.content'' \<mapsto> tabbed_embedding] ''embed.content'' =
     Inr ([([CHR ''a'', CHR 0x09, CHR ''b''], [''1''])], []) \<and>
   text_before_whitespace ([CHR ''a'', CHR 0x09, CHR ''b''] @ '' 1\<newline>'') = ''a'' \<and>
   parse_embedding literal_fromstring [''embed.content'' \<mapsto> spaceless_embedding] ''embed.content'' =
     Inl ValueError"
  by (simp add: parse_embedding_def readlines_def tabbed_embedding_def spaceless_embedding_def
      split_space_1_def literal_fromstring_def is_space_def print_mismatches_def
      text_before_whitespace_def)






text \<open>
  C10. The parser needs a data line: for a file that is empty or holds its first
  line only, it does not return an empty table but raises, because
  \<^verbatim>\<open>embedd_dict[word]\<close> is looked up with \<^verbatim>\<open>word\<close> still \<^verbatim>\<open>None\<close>; and this \<^verbatim>\<open>KeyError\<close> is
  raised for no other file.
\<close>

theorem parse_embedding_needs_data_line:
  assumes "files embed_path = Some content"
  shows "(parse_embedding fromstring files embed_path = Inl (KeyError PNone)) =
           (length (readlines content) \<le> 1)"
proof
  assume "length (readlines content) \<le> 1"
  with assms show "parse_embedding fromstring files embed_path = Inl (KeyError PNone)"
    by (rule parse_embedding_no_rows[where files = files and embed_path = embed_path])
next
  assume k: "parse_embedding fromstring files embed_path = Inl (KeyError PNone)"
  show "length (readlines content) \<le> 1"
  proof (rule ccontr)
    assume "\<not> length (readlines content) \<le> 1"
    then obtain header body where r: "readlines content = header # body" and b: "body \<noteq> []"
      by (cases "readlines content") auto
    show False
    proof (cases "\<forall>l \<in> set body. CHR '' '' \<in> set l")
      case True
      from parse_embedding_rows[where files = files and embed_path = embed_path
          and fromstring = fromstring, OF assms r b True] k
      show False by auto
    next
      case False
      then have "\<exists>l \<in> set body. CHR '' '' \<notin> set l" by simp
      from parse_embedding_raises[where files = files and embed_path = embed_path
          and fromstring = fromstring, OF assms r this] k
      show False by simp
    qed
  qed
qed

theorem parse_embedding_needs_data_line_witness:
  "[''embed.txt'' \<mapsto> header_only_embedding] ''embed.txt'' = Some header_only_embedding \<and>
   length (readlines header_only_embedding) \<le> 1 \<and>
   parse_embedding literal_fromstring [''embed.txt'' \<mapsto> header_only_embedding] ''embed.txt'' =
     Inl (KeyError PNone) \<and>
   [''embed.txt'' \<mapsto> []] ''embed.txt'' = Some [] \<and>
   length (readlines []) \<le> 1 \<and>
   parse_embedding literal_fromstring [''embed.txt'' \<mapsto> []] ''embed.txt'' =
     Inl (KeyError PNone)"
proof -
  have f: "[''embed.txt'' \<mapsto> header_only_embedding] ''embed.txt'' = Some header_only_embedding"
    by simp
  have l: "length (readlines header_only_embedding) \<le> 1"
    by (simp add: readlines_def header_only_embedding_def)
  have g: "[''embed.txt'' \<mapsto> []] ''embed.txt'' = Some []"
    by simp
  have e: "length (readlines []) \<le> 1"
    by (simp add: readlines_def)
  from parse_embedding_needs_data_line[where fromstring = literal_fromstring
      and files = "[''embed.txt'' \<mapsto> header_only_embedding]" and embed_path = "''embed.txt''", OF f] l
  have one: "parse_embedding literal_fromstring [''embed.txt'' \<mapsto> header_only_embedding]
      ''embed.txt'' = Inl (KeyError PNone)"
    by simp
  from parse_embedding_needs_data_line[where fromstring = literal_fromstring
      and files = "[''embed.txt'' \<mapsto> []]" and embed_path = "''embed.txt''", OF g] e
  have two: "parse_embedding literal_fromstring [''embed.txt'' \<mapsto> []] ''embed.txt'' =
      Inl (KeyError PNone)"
    by simp
  from f l one g e two show ?thesis by blast
qed

end
